theory Spec2Isabelle
  imports Complex_Main "HOL-Library.Word"
begin

section \<open>JavaScript strings and JSON values\<close>

text \<open>
  A JavaScript string is a sequence of UTF-16 code units, and \<open>.length\<close> counts code
  units. Strings are therefore lists of 16-bit words; the literals of the source are
  ASCII and are embedded by \<open>js\<close>.
\<close>

type_synonym jsstring = "16 word list"

definition js :: "string \<Rightarrow> jsstring" where
  "js s = map (\<lambda>c. of_nat (of_char c)) s"

text \<open>
  A JavaScript number, as far as this program can tell numbers apart: a finite value,
  an infinity (\<open>JSON.parse\<close> gives one for a literal beyond the double range), or
  \<open>NaN\<close> (never from \<open>JSON.parse\<close>, but the result of converting a non-numeric value).
\<close>

datatype number = NaN | Finite rat | PosInfinity | NegInfinity

text \<open>
  The values \<open>JSON.parse\<close> can return. \<open>JObj\<close> lists the members of an object in the
  order they were defined; a later member replaces an earlier one of the same name.
\<close>

datatype json =
    JNull
  | JBool bool
  | JNum number
  | JStr jsstring
  | JArr "json list"
  | JObj "(jsstring \<times> json) list"

text \<open>
  \<open>types/index.ts\<close>: \<open>interface TranslationResult { [languageCode: string]: string }\<close>.
  The interface exists at compile time only; this predicate says which runtime values
  have that shape.
\<close>

fun is_JStr :: "json \<Rightarrow> bool" where
  "is_JStr (JStr s) = True"
| "is_JStr v = False"

fun is_TranslationResult :: "json \<Rightarrow> bool" where
  "is_TranslationResult (JObj kvs) = (distinct (map fst kvs) \<and> list_all (\<lambda>kv. is_JStr (snd kv)) kvs)"
| "is_TranslationResult v = False"

fun keys :: "json \<Rightarrow> jsstring set" where
  "keys (JObj kvs) = set (map fst kvs)"
| "keys v = {}"

section \<open>The runtime and the external model\<close>

text \<open>
  Values thrown in this program: a value thrown by the platform or by the model SDK
  (opaque, of type \<open>'e\<close>), the \<open>TypeError\<close> of the language itself, the \<open>SyntaxError\<close>
  of \<open>JSON.parse\<close>, and \<open>new Error(message)\<close>.
\<close>

datatype 'e error = Thrown 'e | TypeError | SyntaxError | Error jsstring

text \<open>
  What the program calls and does not define. \<open>chatSession.sendMessage(prompt)\<close> is a
  request to the external model: it takes the state \<open>'w\<close> of the outside world to a
  new one and returns a result of type \<open>'r\<close> or throws. \<open>result.response.text()\<close>
  returns the reply text or throws, and \<open>JSON.parse\<close> returns a value or throws
  \<open>SyntaxError\<close>. \<open>StringToNumber\<close> and \<open>NumberToString\<close> are the language's
  conversions between strings and numbers.
\<close>

record ('e, 'r, 'w) runtime =
  sendMessage :: "jsstring \<Rightarrow> 'w \<Rightarrow> ('e + 'r) \<times> 'w"
  response_text :: "'r \<Rightarrow> 'e + jsstring"
  JSON_parse :: "jsstring \<Rightarrow> json option"
  StringToNumber :: "jsstring \<Rightarrow> number"
  NumberToString :: "number \<Rightarrow> jsstring"

text \<open>
  The effects inside the server, in the order they happen: a call of \<open>translateText\<close>
  with its two arguments, a message handed to \<open>sendMessage\<close>, a line written by
  \<open>console.error(label, error)\<close>.
\<close>

datatype 'e event =
    TranslateText json json
  | SendMessage jsstring
  | ConsoleError jsstring "'e error"

fun is_TranslateText :: "'e event \<Rightarrow> bool" where
  "is_TranslateText (TranslateText t ls) = True"
| "is_TranslateText ev = False"

fun is_SendMessage :: "'e event \<Rightarrow> bool" where
  "is_SendMessage (SendMessage p) = True"
| "is_SendMessage ev = False"

section \<open>The language's operations on JSON values\<close>

text \<open>
  A JavaScript value here is a JSON value or \<open>undefined\<close> (\<open>None\<close>).
  \<open>own_property v k\<close> is \<open>v.k\<close> for a name \<open>k\<close> that no prototype defines (the
  names read by this program are \<open>text\<close>, \<open>targetLanguages\<close> and, on an object,
  \<open>length\<close>); \<open>v\<close> is not \<open>null\<close>.
\<close>

fun own_property :: "json \<Rightarrow> jsstring \<Rightarrow> json option" where
  "own_property (JObj kvs) k = map_of (rev kvs) k"
| "own_property v k = None"

text \<open>\<open>v.length\<close>, for a value \<open>v\<close> that is not \<open>null\<close>.\<close>

fun js_length :: "json \<Rightarrow> json option" where
  "js_length (JStr s) = Some (JNum (Finite (of_nat (length s))))"
| "js_length (JArr xs) = Some (JNum (Finite (of_nat (length xs))))"
| "js_length (JObj kvs) = own_property (JObj kvs) (js ''length'')"
| "js_length v = None"

text \<open>\<open>!v\<close> is \<open>\<not> truthy v\<close>.\<close>

fun truthy :: "json \<Rightarrow> bool" where
  "truthy JNull = False"
| "truthy (JBool b) = b"
| "truthy (JNum n) = (n \<noteq> Finite 0 \<and> n \<noteq> NaN)"
| "truthy (JStr s) = (s \<noteq> [])"
| "truthy (JArr xs) = True"
| "truthy (JObj kvs) = True"

text \<open>\<open>Array.prototype.join\<close> on an array of strings.\<close>

fun join :: "jsstring \<Rightarrow> jsstring list \<Rightarrow> jsstring" where
  "join sep [] = []"
| "join sep [x] = x"
| "join sep (x # y # ys) = x @ sep @ join sep (y # ys)"

text \<open>
  \<open>ToString\<close>, and the strings that \<open>join\<close> makes of the elements of an array (the
  empty string for \<open>null\<close>). An array is converted by \<open>join(",")\<close>. An object made by
  \<open>JSON.parse\<close> is converted by \<open>Object.prototype.toString\<close>, unless it has a member
  named \<open>toString\<close>: that member is not a function, \<open>valueOf\<close> gives no primitive
  either, and the conversion throws \<open>TypeError\<close>.
\<close>

fun ToString :: "(number \<Rightarrow> jsstring) \<Rightarrow> json \<Rightarrow> 'e error + jsstring"
  and element_strings :: "(number \<Rightarrow> jsstring) \<Rightarrow> json list \<Rightarrow> 'e error + jsstring list" where
  "ToString nts JNull = Inr (js ''null'')"
| "ToString nts (JBool b) = Inr (if b then js ''true'' else js ''false'')"
| "ToString nts (JNum n) = Inr (nts n)"
| "ToString nts (JStr s) = Inr s"
| "ToString nts (JArr xs) =
     (case element_strings nts xs of
        Inl e \<Rightarrow> Inl e
      | Inr ss \<Rightarrow> Inr (join (js '','') ss))"
| "ToString nts (JObj kvs) =
     (if js ''toString'' \<in> set (map fst kvs) then Inl TypeError
      else Inr (js ''[object Object]''))"
| "element_strings nts [] = Inr []"
| "element_strings nts (x # xs) =
     (case (if x = JNull then Inr [] else ToString nts x) of
        Inl e \<Rightarrow> Inl e
      | Inr s \<Rightarrow>
          (case element_strings nts xs of
             Inl e \<Rightarrow> Inl e
           | Inr ss \<Rightarrow> Inr (s # ss)))"

text \<open>
  \<open>ToNumber\<close>. An array or object is first made primitive; its \<open>valueOf\<close> returns the
  object itself, so the primitive is the string of \<open>ToString\<close>.
\<close>

fun ToNumber :: "('e, 'r, 'w) runtime \<Rightarrow> json option \<Rightarrow> 'e error + number" where
  "ToNumber rt None = Inr NaN"
| "ToNumber rt (Some JNull) = Inr (Finite 0)"
| "ToNumber rt (Some (JBool b)) = Inr (Finite (if b then 1 else 0))"
| "ToNumber rt (Some (JNum n)) = Inr n"
| "ToNumber rt (Some (JStr s)) = Inr (StringToNumber rt s)"
| "ToNumber rt (Some v) =
     (case ToString (NumberToString rt) v of
        Inl e \<Rightarrow> Inl e
      | Inr s \<Rightarrow> Inr (StringToNumber rt s))"

text \<open>\<open>n > r\<close> for a number \<open>n\<close> and a finite \<open>r\<close>; false when \<open>n\<close> is \<open>NaN\<close>.\<close>

fun greater :: "number \<Rightarrow> rat \<Rightarrow> bool" where
  "greater NaN r = False"
| "greater (Finite q) r = (r < q)"
| "greater PosInfinity r = True"
| "greater NegInfinity r = False"

section \<open>utils/gemini.ts\<close>

text \<open>\<open>promptTemplate\<close> on a string and an array of strings, the types it declares.\<close>

definition promptTemplate :: "jsstring \<Rightarrow> jsstring list \<Rightarrow> jsstring" where
  \<open>promptTemplate userMessage targetLanguages =
     js ''Translate the following text: "'' @ userMessage
     @ js ''" into the following languages: '' @ join (js '', '') targetLanguages
     @ js ''. Provide the translations as a JSON object with language codes as keys and translated texts as values.''\<close>

text \<open>
  \<open>promptTemplate\<close> on whatever values it is called with: the template literal
  converts \<open>userMessage\<close> with \<open>ToString\<close> and calls \<open>targetLanguages.join(", ")\<close>,
  which only an array has; on any other value the call throws \<open>TypeError\<close>.
\<close>

fun promptTemplate_call ::
  "('e, 'r, 'w) runtime \<Rightarrow> json \<Rightarrow> json \<Rightarrow> 'e error + jsstring" where
  "promptTemplate_call rt userMessage (JArr xs) =
     (case ToString (NumberToString rt) userMessage of
        Inl e \<Rightarrow> Inl e
      | Inr message \<Rightarrow>
          (case element_strings (NumberToString rt) xs of
             Inl e \<Rightarrow> Inl e
           | Inr codes \<Rightarrow> Inr (promptTemplate message codes)))"
| "promptTemplate_call rt userMessage targetLanguages = Inl TypeError"

text \<open>
  The body of the \<open>try\<close> block of \<open>translateText\<close>: its value or what it throws, and
  the world after it.
\<close>

definition translateText_try ::
  "('e, 'r, 'w) runtime \<Rightarrow> jsstring \<Rightarrow> 'w \<Rightarrow> ('e error + json) \<times> 'w" where
  "translateText_try rt prompt w =
     (case sendMessage rt prompt w of
        (Inl e, w') \<Rightarrow> (Inl (Thrown e), w')
      | (Inr result, w') \<Rightarrow>
          (case response_text rt result of
             Inl e \<Rightarrow> (Inl (Thrown e), w')
           | Inr responseText \<Rightarrow>
               (case JSON_parse rt responseText of
                  None \<Rightarrow> (Inl SyntaxError, w')
                | Some translations \<Rightarrow> (Inr translations, w'))))"

text \<open>
  \<open>translateText\<close>: its value or what it throws, its effects inside the server, and
  the world after it. The prompt is built before the \<open>try\<close>, so what
  \<open>promptTemplate\<close> throws leaves the function as it is, with nothing sent. Otherwise
  the function returns the parsed reply, or throws \<open>new Error("Translation failed")\<close>
  after logging what the \<open>try\<close> block threw. \<open>model.startChat\<close> only builds the session
  object; the one message of the session is sent by \<open>sendMessage\<close>.
\<close>

definition translateText ::
  "('e, 'r, 'w) runtime \<Rightarrow> json \<Rightarrow> json \<Rightarrow> 'w
     \<Rightarrow> ('e error + json) \<times> 'e event list \<times> 'w" where
  "translateText rt userMessage targetLanguages w =
     (case promptTemplate_call rt userMessage targetLanguages of
        Inl e \<Rightarrow> (Inl e, [], w)
      | Inr prompt \<Rightarrow>
          (case translateText_try rt prompt w of
             (Inr translations, w') \<Rightarrow> (Inr translations, [SendMessage prompt], w')
           | (Inl error, w') \<Rightarrow>
               (Inl (Error (js ''Translation failed'')),
                [SendMessage prompt, ConsoleError (js ''Error during translation:'') error],
                w')))"

section \<open>app/api/translate/route.ts\<close>

record response =
  status :: nat
  body :: json

text \<open>\<open>NextResponse.json(body, { status })\<close>; the status is 200 when none is given.\<close>

definition NextResponse_json :: "json \<Rightarrow> nat option \<Rightarrow> response" where
  "NextResponse_json b init =
     \<lparr>status = (case init of None \<Rightarrow> 200 | Some s \<Rightarrow> s), body = b\<rparr>"

definition error_body :: "jsstring \<Rightarrow> json" where
  "error_body message = JObj [(js ''error'', JStr message)]"

definition InvalidText :: response where
  "InvalidText =
     NextResponse_json (error_body (js ''Text is required and must be up to 140 characters.''))
       (Some 400)"

definition InvalidLanguageCount :: response where
  "InvalidLanguageCount =
     NextResponse_json (error_body (js ''Please select exactly 3 target languages.'')) (Some 400)"

definition TranslationError :: response where
  "TranslationError =
     NextResponse_json (error_body (js ''An error occurred during translation.'')) (Some 500)"

text \<open>
  \<open>const { text, targetLanguages } = body\<close>: throws \<open>TypeError\<close> when the body is
  \<open>null\<close>; any other JSON value has the two properties or lacks them. The cast to
  \<open>TranslateRequestBody\<close> checks nothing.
\<close>

fun destructure :: "json \<Rightarrow> 'e error + json option \<times> json option" where
  "destructure JNull = Inl TypeError"
| "destructure v = Inr (own_property v (js ''text''), own_property v (js ''targetLanguages''))"

text \<open>\<open>text.length > 140\<close>, for a truthy \<open>text\<close>: the comparison converts the length to a number.\<close>

definition length_exceeds_140 :: "('e, 'r, 'w) runtime \<Rightarrow> json \<Rightarrow> 'e error + bool" where
  "length_exceeds_140 rt t =
     (case ToNumber rt (js_length t) of
        Inl e \<Rightarrow> Inl e
      | Inr n \<Rightarrow> Inr (greater n 140))"

text \<open>The \<open>catch\<close> block of the handler.\<close>

definition POST_catch :: "'e error \<Rightarrow> 'e event list \<Rightarrow> 'w \<Rightarrow> response \<times> 'e event list \<times> 'w" where
  "POST_catch error evs w =
     (TranslationError, evs @ [ConsoleError (js ''API Translation Error:'') error], w)"

text \<open>
  The handler. Its arguments are the outcome of \<open>await request.json()\<close> (the parsed
  body, or the value thrown when the body is not JSON) and the world. The result is
  the response, the effects inside the server in order, and the world afterwards.
\<close>

definition POST ::
  "('e, 'r, 'w) runtime \<Rightarrow> 'e + json \<Rightarrow> 'w \<Rightarrow> response \<times> 'e event list \<times> 'w" where
  "POST rt request_json w =
     (case request_json of
        Inl e \<Rightarrow> POST_catch (Thrown e) [] w
      | Inr parsed \<Rightarrow>
          (case destructure parsed of
             Inl e \<Rightarrow> POST_catch e [] w
           | Inr (None, targetLanguages) \<Rightarrow> (InvalidText, [], w)
           | Inr (Some t, targetLanguages) \<Rightarrow>
               if \<not> truthy t then (InvalidText, [], w)
               else
                 (case length_exceeds_140 rt t of
                    Inl e \<Rightarrow> POST_catch e [] w
                  | Inr True \<Rightarrow> (InvalidText, [], w)
                  | Inr False \<Rightarrow>
                      (case targetLanguages of
                         None \<Rightarrow> (InvalidLanguageCount, [], w)
                       | Some ls \<Rightarrow>
                           if \<not> truthy ls \<or> js_length ls \<noteq> Some (JNum (Finite 3))
                           then (InvalidLanguageCount, [], w)
                           else
                             (case translateText rt t ls w of
                                (Inr translations, evs, w') \<Rightarrow>
                                  (NextResponse_json (JObj [(js ''translations'', translations)])
                                     None,
                                   TranslateText t ls # evs, w')
                              | (Inl error, evs, w') \<Rightarrow>
                                  POST_catch error (TranslateText t ls # evs) w')))))"

section \<open>components/ui/FullscreenTextInput.tsx\<close>

text \<open>
  \<open>String.prototype.trim\<close> removes the code units of the ECMAScript productions
  WhiteSpace and LineTerminator from both ends.
\<close>

definition is_WhiteSpace :: "16 word \<Rightarrow> bool" where
  "is_WhiteSpace c =
     (c \<in> set [0x0009, 0x000A, 0x000B, 0x000C, 0x000D, 0x0020, 0x00A0, 0x1680,
                0x2028, 0x2029, 0x202F, 0x205F, 0x3000, 0xFEFF]
      \<or> (0x2000 \<le> c \<and> c \<le> 0x200A))"

definition trim :: "jsstring \<Rightarrow> jsstring" where
  "trim s = rev (dropWhile is_WhiteSpace (rev (dropWhile is_WhiteSpace s)))"

text \<open>
  \<open>handleSubmit\<close> of the text form, on the text typed so far: \<open>None\<close> when it returns
  without calling \<open>onSubmit\<close>, otherwise the argument of \<open>onSubmit\<close>.
\<close>

definition FullscreenTextInput_handleSubmit :: "jsstring \<Rightarrow> jsstring option" where
  "FullscreenTextInput_handleSubmit t =
     (if length (trim t) = 0 \<or> length t > 140 then None else Some (trim t))"

section \<open>components/ui/LanguageSelectionModal.tsx\<close>

record Language =
  code :: jsstring
  name :: jsstring

definition COMMON_LANGUAGES :: "Language list" where
  "COMMON_LANGUAGES =
     [\<lparr>code = js ''en'', name = js ''English''\<rparr>,
      \<lparr>code = js ''es'', name = js ''Spanish''\<rparr>,
      \<lparr>code = js ''zh'', name = js ''Chinese''\<rparr>,
      \<lparr>code = js ''hi'', name = js ''Hindi''\<rparr>,
      \<lparr>code = js ''ar'', name = js ''Arabic''\<rparr>,
      \<lparr>code = js ''bn'', name = js ''Bengali''\<rparr>,
      \<lparr>code = js ''fr'', name = js ''French''\<rparr>,
      \<lparr>code = js ''ru'', name = js ''Russian''\<rparr>,
      \<lparr>code = js ''pt'', name = js ''Portuguese''\<rparr>,
      \<lparr>code = js ''de'', name = js ''German''\<rparr>,
      \<lparr>code = js ''ja'', name = js ''Japanese''\<rparr>,
      \<lparr>code = js ''sw'', name = js ''Swahili''\<rparr>,
      \<lparr>code = js ''mwu'', name = js ''Murrinh-Patha''\<rparr>,
      \<lparr>code = js ''fa'', name = js ''Persian''\<rparr>,
      \<lparr>code = js ''ur'', name = js ''Urdu''\<rparr>,
      \<lparr>code = js ''it'', name = js ''Italian''\<rparr>,
      \<lparr>code = js ''ko'', name = js ''Korean''\<rparr>,
      \<lparr>code = js ''vi'', name = js ''Vietnamese''\<rparr>,
      \<lparr>code = js ''ta'', name = js ''Tamil''\<rparr>]"

text \<open>
  The component: the prop \<open>isOpen\<close> (owned by the page), its own state
  \<open>selectedLanguages\<close>, and the arguments with which it has called the prop
  \<open>onSelectLanguages\<close> so far.
\<close>

record modal =
  isOpen :: bool
  selectedLanguages :: "jsstring list"
  onSelectLanguages :: "jsstring list list"

definition initial :: modal where
  "initial = \<lparr>isOpen = False, selectedLanguages = [], onSelectLanguages = []\<rparr>"

text \<open>The updater that \<open>toggleLanguage\<close> passes to \<open>setSelectedLanguages\<close>.\<close>

definition toggleLanguage :: "jsstring \<Rightarrow> jsstring list \<Rightarrow> jsstring list" where
  "toggleLanguage c prev = (if c \<in> set prev then filter (\<lambda>x. x \<noteq> c) prev else prev @ [c])"

text \<open>The \<open>disabled\<close> attributes of a checkbox and of the Submit button.\<close>

definition checkbox_disabled :: "jsstring \<Rightarrow> jsstring list \<Rightarrow> bool" where
  "checkbox_disabled c selected = (c \<notin> set selected \<and> length selected \<ge> 3)"

definition submit_disabled :: "jsstring list \<Rightarrow> bool" where
  "submit_disabled selected = (length selected \<noteq> 3)"

text \<open>The effect that runs when \<open>isOpen\<close> changes.\<close>

definition useEffect :: "modal \<Rightarrow> modal" where
  "useEffect m = (if \<not> isOpen m then m\<lparr>selectedLanguages := []\<rparr> else m)"

text \<open>The prop \<open>onClose\<close> as the page passes it: \<open>() => setIsModalOpen(false)\<close>.\<close>

definition onClose :: "modal \<Rightarrow> modal" where
  "onClose m = useEffect (m\<lparr>isOpen := False\<rparr>)"

definition handleSubmit :: "modal \<Rightarrow> modal" where
  "handleSubmit m =
     (if length (selectedLanguages m) = 3
      then onClose (m\<lparr>onSelectLanguages := onSelectLanguages m @ [selectedLanguages m]\<rparr>)
      else m)"

text \<open>
  What the user can do. The page opens the modal (\<open>setIsModalOpen(true)\<close>); the
  controls exist only while \<open>isOpen\<close> holds, and a disabled control fires no event, so a
  click on it leaves the component as it is.
\<close>

datatype action = Open | ClickCheckbox jsstring | ClickCancel | ClickSubmit

fun user_step :: "modal \<Rightarrow> action \<Rightarrow> modal" where
  "user_step m Open = useEffect (m\<lparr>isOpen := True\<rparr>)"
| "user_step m (ClickCheckbox c) =
     (if isOpen m \<and> c \<in> set (map code COMMON_LANGUAGES)
         \<and> \<not> checkbox_disabled c (selectedLanguages m)
      then m\<lparr>selectedLanguages := toggleLanguage c (selectedLanguages m)\<rparr>
      else m)"
| "user_step m ClickCancel = (if isOpen m then onClose m else m)"
| "user_step m ClickSubmit =
     (if isOpen m \<and> \<not> submit_disabled (selectedLanguages m) then handleSubmit m else m)"

definition run :: "action list \<Rightarrow> modal" where
  "run acts = foldl user_step initial acts"

text \<open>The bound the picker is meant to keep: at most three codes, none twice.\<close>

definition capped :: "modal \<Rightarrow> bool" where
  "capped m = (length (selectedLanguages m) \<le> 3 \<and> distinct (selectedLanguages m))"

section \<open>A scripted external model\<close>

text \<open>
  A runtime for concrete runs. The world is the list of prompts the model has
  received; each call of \<open>sendMessage\<close> adds its prompt and throws or returns the given
  reply text. \<open>JSON.parse\<close> is given by a table of texts and their values. The two
  number conversions are not reached in the runs below and are constant.
\<close>

definition scripted_runtime ::
  "jsstring + jsstring \<Rightarrow> (jsstring \<times> json) list \<Rightarrow> (jsstring, jsstring, jsstring list) runtime" where
  "scripted_runtime outcome table =
     \<lparr>sendMessage = (\<lambda>prompt received. (outcome, received @ [prompt])),
      response_text = Inr,
      JSON_parse = map_of table,
      StringToNumber = (\<lambda>s. NaN),
      NumberToString = (\<lambda>n. [])\<rparr>"

section \<open>Basic facts\<close>

lemma js_Nil [simp]: "js [] = []"
  by (simp add: js_def)

lemma length_js [simp]: "length (js s) = length s"
  by (simp add: js_def)

lemma status_responses [simp]:
  "status InvalidText = 400" "status InvalidLanguageCount = 400" "status TranslationError = 500"
  by (simp_all add: InvalidText_def InvalidLanguageCount_def TranslationError_def
      NextResponse_json_def)

lemma body_InvalidText:
  "body InvalidText
     = JObj [(js ''error'', JStr (js ''Text is required and must be up to 140 characters.''))]"
  by (simp add: InvalidText_def NextResponse_json_def error_body_def)

lemma body_InvalidLanguageCount:
  "body InvalidLanguageCount
     = JObj [(js ''error'', JStr (js ''Please select exactly 3 target languages.''))]"
  by (simp add: InvalidLanguageCount_def NextResponse_json_def error_body_def)

lemma body_TranslationError:
  "body TranslationError
     = JObj [(js ''error'', JStr (js ''An error occurred during translation.''))]"
  by (simp add: TranslationError_def NextResponse_json_def error_body_def)

lemma InvalidText_neq_InvalidLanguageCount: "InvalidText \<noteq> InvalidLanguageCount"
  by (simp add: InvalidText_def InvalidLanguageCount_def NextResponse_json_def error_body_def
      js_def)

lemma not_InvalidText:
  "InvalidLanguageCount \<noteq> InvalidText" "TranslationError \<noteq> InvalidText"
  "NextResponse_json v None \<noteq> InvalidText"
proof -
  show "InvalidLanguageCount \<noteq> InvalidText"
    using InvalidText_neq_InvalidLanguageCount by simp
  show "TranslationError \<noteq> InvalidText"
  proof
    assume "TranslationError = InvalidText"
    then have "status TranslationError = status InvalidText"
      by (rule arg_cong)
    then show False
      by simp
  qed
  show "NextResponse_json v None \<noteq> InvalidText"
  proof
    assume "NextResponse_json v None = InvalidText"
    then have "status (NextResponse_json v None) = status InvalidText"
      by (rule arg_cong)
    then show False
      by (simp add: NextResponse_json_def)
  qed
qed

section \<open>Conversions on well-typed values\<close>

lemma destructure_property:
  assumes "own_property v k = Some x"
  shows "destructure v = Inr (own_property v (js ''text''), own_property v (js ''targetLanguages''))"
  using assms by (cases v) simp_all

lemma destructure_not_null:
  assumes "v \<noteq> JNull"
  shows "destructure v = Inr (own_property v (js ''text''), own_property v (js ''targetLanguages''))"
  using assms by (cases v) simp_all

lemma destructure_Inr:
  assumes "destructure v = Inr (a, b)"
  shows "a = own_property v (js ''text'') \<and> b = own_property v (js ''targetLanguages'')"
  using assms by (cases v) auto

lemma js_length_three:
  "js_length (JStr s) = Some (JNum (Finite 3)) \<longleftrightarrow> length s = 3"
  "js_length (JArr ys) = Some (JNum (Finite 3)) \<longleftrightarrow> length ys = 3"
  by simp_all

lemma length_exceeds_140_JStr: "length_exceeds_140 rt (JStr t) = Inr (140 < length t)"
proof -
  have "((140::rat) < of_nat (length t)) = (140 < length t)"
    using of_nat_less_iff [of 140 "length t", where ?'a = rat] by simp
  then show ?thesis
    by (simp add: length_exceeds_140_def)
qed

lemma element_strings_JStr: "element_strings nts (map JStr ls) = Inr ls"
  by (induction ls) simp_all

lemma promptTemplate_call_strings:
  "promptTemplate_call rt (JStr u) (JArr (map JStr ls)) = Inr (promptTemplate u ls)"
  by (simp add: element_strings_JStr)

lemma join_Cons: "join sep (c # cs) = c @ concat (map (\<lambda>x. sep @ x) cs)"
  by (induction cs arbitrary: c) simp_all

section \<open>The translation client\<close>

lemma translateText_try_Inr_iff:
  "fst (translateText_try rt prompt w) = Inr v \<longleftrightarrow>
     (\<exists>r s w'. sendMessage rt prompt w = (Inr r, w') \<and> response_text rt r = Inr s
        \<and> JSON_parse rt s = Some v)"
  by (auto simp: translateText_try_def split: sum.splits option.splits prod.splits)

lemma snd_translateText_try: "snd (translateText_try rt prompt w) = snd (sendMessage rt prompt w)"
  by (simp add: translateText_try_def split: sum.splits option.splits prod.splits)

lemma fst_translateText:
  "fst (translateText rt x y w) =
     (case promptTemplate_call rt x y of
        Inl e \<Rightarrow> Inl e
      | Inr p \<Rightarrow>
          (case fst (translateText_try rt p w) of
             Inr v \<Rightarrow> Inr v
           | Inl e \<Rightarrow> Inl (Error (js ''Translation failed''))))"
  by (simp add: translateText_def split: sum.splits prod.splits)

lemma world_translateText:
  "snd (snd (translateText rt x y w)) =
     (case promptTemplate_call rt x y of
        Inl e \<Rightarrow> w
      | Inr p \<Rightarrow> snd (sendMessage rt p w))"
proof (cases "promptTemplate_call rt x y")
  case (Inl e)
  then show ?thesis
    by (simp add: translateText_def)
next
  case (Inr p)
  obtain res w' where t: "translateText_try rt p w = (res, w')"
    by (cases "translateText_try rt p w")
  then have "w' = snd (sendMessage rt p w)"
    using snd_translateText_try [of rt p w] by simp
  then show ?thesis
    using Inr t by (cases res) (simp_all add: translateText_def)
qed

lemma SendMessage_translateText:
  "filter is_SendMessage (fst (snd (translateText rt x y w))) =
     (case promptTemplate_call rt x y of
        Inl e \<Rightarrow> []
      | Inr p \<Rightarrow> [SendMessage p])"
  by (simp add: translateText_def split: sum.splits prod.splits)

lemma TranslateText_notin_translateText:
  "translateText rt x y w = (res, evs, w') \<Longrightarrow> TranslateText t ls \<notin> set evs"
  by (auto simp: translateText_def split: sum.splits prod.splits)

text \<open>
  C8. Called with a string and an array of strings, \<open>translateText\<close> builds one
  instruction string: the fixed wording, with the text placed as it is between two
  double quotes (code unit 0x22) and the codes joined by comma and space. The world
  after the call is the world after one call of \<open>sendMessage\<close> with that string,
  whatever the model does (reply or throw): one request, never a second one. For
  arguments of any type the world is that after one call, or unchanged when
  building the prompt throws.
\<close>

theorem translateText_one_prompt:
  "promptTemplate_call rt (JStr u) (JArr (map JStr ls)) = Inr (promptTemplate u ls)
   \<and> promptTemplate u ls
     = js ''Translate the following text: '' @ [0x22] @ u @ [0x22]
       @ js '' into the following languages: ''
       @ (case ls of [] \<Rightarrow> [] | c # cs \<Rightarrow> c @ concat (map (\<lambda>x. [0x2C, 0x20] @ x) cs))
       @ js ''. Provide the translations as a JSON object with language codes as keys and translated texts as values.''
   \<and> snd (snd (translateText rt (JStr u) (JArr (map JStr ls)) w))
     = snd (sendMessage rt (promptTemplate u ls) w)
   \<and> snd (snd (translateText rt x y w))
     = (case promptTemplate_call rt x y of
          Inl e \<Rightarrow> w
        | Inr p \<Rightarrow> snd (sendMessage rt p w))
   \<and> filter is_SendMessage (fst (snd (translateText rt (JStr u) (JArr (map JStr ls)) w)))
     = [SendMessage (promptTemplate u ls)]"
proof -
  have "join (js '', '') ls
      = (case ls of [] \<Rightarrow> [] | c # cs \<Rightarrow> c @ concat (map (\<lambda>x. [0x2C, 0x20] @ x) cs))"
    by (cases ls) (simp_all add: join_Cons, simp add: js_def)
  then have "promptTemplate u ls
     = js ''Translate the following text: '' @ [0x22] @ u @ [0x22]
       @ js '' into the following languages: ''
       @ (case ls of [] \<Rightarrow> [] | c # cs \<Rightarrow> c @ concat (map (\<lambda>x. [0x2C, 0x20] @ x) cs))
       @ js ''. Provide the translations as a JSON object with language codes as keys and translated texts as values.''"
    by (simp add: promptTemplate_def js_def)
  then show ?thesis
    using world_translateText [of rt x y w]
      world_translateText [of rt "JStr u" "JArr (map JStr ls)" w]
      SendMessage_translateText [of rt "JStr u" "JArr (map JStr ls)" w]
    by (simp only: promptTemplate_call_strings sum.case simp_thms)
qed

theorem translateText_one_prompt_witness:
  "snd (snd (translateText (scripted_runtime (Inl (js ''fetch failed'')) [])
               (JStr (js ''Hello'')) (JArr [JStr (js ''es''), JStr (js ''fr''), JStr (js ''de'')])
               []))
     = [promptTemplate (js ''Hello'') [js ''es'', js ''fr'', js ''de'']]
   \<and> promptTemplate (js ''Hello'') [js ''es'', js ''fr'', js ''de'']
     = js ''Translate the following text: '' @ [0x22] @ js ''Hello'' @ [0x22]
       @ js '' into the following languages: es, fr, de''
       @ js ''. Provide the translations as a JSON object with language codes as keys and translated texts as values.''"
proof -
  have "snd (snd (translateText (scripted_runtime (Inl (js ''fetch failed'')) [])
               (JStr (js ''Hello'')) (JArr (map JStr [js ''es'', js ''fr'', js ''de''])) []))
     = [promptTemplate (js ''Hello'') [js ''es'', js ''fr'', js ''de'']]"
    using translateText_one_prompt
      [of "scripted_runtime (Inl (js ''fetch failed'')) []" "js ''Hello''"
          "[js ''es'', js ''fr'', js ''de'']" "[]"]
    by (simp add: scripted_runtime_def)
  moreover have "promptTemplate (js ''Hello'') [js ''es'', js ''fr'', js ''de'']
     = js ''Translate the following text: '' @ [0x22] @ js ''Hello'' @ [0x22]
       @ js '' into the following languages: es, fr, de''
       @ js ''. Provide the translations as a JSON object with language codes as keys and translated texts as values.''"
    using translateText_one_prompt
      [of "scripted_runtime (Inl (js ''fetch failed'')) []" "js ''Hello''"
          "[js ''es'', js ''fr'', js ''de'']" "[]"]
    by (simp add: js_def)
  ultimately show ?thesis
    by simp
qed

text \<open>
  C4, as amended. \<open>translateText\<close> makes no check of the reply's shape. It returns a
  value \<open>v\<close> exactly when the model call returns, its reply text can be read, and
  \<open>JSON.parse\<close> of that text gives \<open>v\<close>, whatever \<open>v\<close> is; in every other case (the
  call throws, reading the reply throws, the text is not JSON) it throws
  \<open>Error("Translation failed")\<close>.
\<close>

theorem translateText_outcome:
  "(fst (translateText rt (JStr u) (JArr (map JStr ls)) w) = Inr v
      \<longleftrightarrow> (\<exists>r s w'. sendMessage rt (promptTemplate u ls) w = (Inr r, w')
                  \<and> response_text rt r = Inr s \<and> JSON_parse rt s = Some v))
   \<and> ((\<forall>x. fst (translateText rt (JStr u) (JArr (map JStr ls)) w) \<noteq> Inr x)
      \<longrightarrow> fst (translateText rt (JStr u) (JArr (map JStr ls)) w)
            = Inl (Error (js ''Translation failed'')))"
proof (cases "fst (translateText_try rt (promptTemplate u ls) w)")
  case (Inl e)
  then show ?thesis
    using translateText_try_Inr_iff [of rt "promptTemplate u ls" w v]
    by (simp add: fst_translateText promptTemplate_call_strings del: promptTemplate_call.simps)
next
  case (Inr x)
  then show ?thesis
    using translateText_try_Inr_iff [of rt "promptTemplate u ls" w v]
    by (simp add: fst_translateText promptTemplate_call_strings del: promptTemplate_call.simps)
qed

theorem translateText_outcome_witness:
  "fst (translateText (scripted_runtime (Inr (js ''[]'')) [(js ''[]'', JArr [])])
          (JStr (js ''Hello'')) (JArr [JStr (js ''es''), JStr (js ''fr''), JStr (js ''de'')]) [])
     = Inr (JArr [])
   \<and> fst (translateText (scripted_runtime (Inr (js ''oops'')) [(js ''[]'', JArr [])])
          (JStr (js ''Hello'')) (JArr [JStr (js ''es''), JStr (js ''fr''), JStr (js ''de'')]) [])
     = Inl (Error (js ''Translation failed''))"
proof -
  have ne: "js ''oops'' \<noteq> js ''[]''"
    by (simp add: js_def)
  have "fst (translateText (scripted_runtime (Inr (js ''[]'')) [(js ''[]'', JArr [])])
          (JStr (js ''Hello'')) (JArr (map JStr [js ''es'', js ''fr'', js ''de''])) [])
     = Inr (JArr [])"
    using translateText_outcome
      [of "scripted_runtime (Inr (js ''[]'')) [(js ''[]'', JArr [])]"
          "js ''Hello''" "[js ''es'', js ''fr'', js ''de'']" "[]" "JArr []"]
    by (simp add: scripted_runtime_def)
  moreover have "fst (translateText (scripted_runtime (Inr (js ''oops'')) [(js ''[]'', JArr [])])
          (JStr (js ''Hello'')) (JArr (map JStr [js ''es'', js ''fr'', js ''de''])) [])
     = Inl (Error (js ''Translation failed''))"
    using translateText_outcome
      [of "scripted_runtime (Inr (js ''oops'')) [(js ''[]'', JArr [])]"
          "js ''Hello''" "[js ''es'', js ''fr'', js ''de'']" "[]"] ne
    by (simp add: scripted_runtime_def)
  ultimately show ?thesis by simp
qed

text \<open>
  The claim as first stated fails: when the model replies \<open>[]\<close>, which is JSON and no
  mapping from codes to strings, \<open>translateText\<close> returns the empty array.
\<close>

theorem translateText_shape_counterexample:
  "fst (translateText (scripted_runtime (Inr (js ''[]'')) [(js ''[]'', JArr [])])
          (JStr (js ''Hello'')) (JArr [JStr (js ''es''), JStr (js ''fr''), JStr (js ''de'')]) [])
     = Inr (JArr [])
   \<and> \<not> is_TranslationResult (JArr [])"
  by (simp add: translateText_def translateText_try_def scripted_runtime_def)

section \<open>The translation endpoint\<close>

text \<open>The handler once both rules have passed.\<close>

lemma POST_passed:
  assumes "own_property v (js ''text'') = Some x" "truthy x" "length_exceeds_140 rt x = Inr False"
    and "own_property v (js ''targetLanguages'') = Some y" "truthy y"
    and "js_length y = Some (JNum (Finite 3))"
  shows "POST rt (Inr v) w =
     (case translateText rt x y w of
        (Inr translations, evs, w') \<Rightarrow>
          (NextResponse_json (JObj [(js ''translations'', translations)]) None,
           TranslateText x y # evs, w')
      | (Inl error, evs, w') \<Rightarrow> POST_catch error (TranslateText x y # evs) w')"
  using assms by (simp add: POST_def destructure_property [OF assms(1)])

text \<open>What a call of \<open>translateText\<close> in the trace says of the request.\<close>

lemma POST_forwarded:
  fixes rt :: "('e, 'r, 'w) runtime"
  assumes "TranslateText x y \<in> set (fst (snd (POST rt req w)))"
  shows "\<exists>v. req = Inr v \<and> own_property v (js ''text'') = Some x \<and> truthy x
    \<and> length_exceeds_140 rt x = Inr False
    \<and> own_property v (js ''targetLanguages'') = Some y \<and> truthy y
    \<and> js_length y = Some (JNum (Finite 3))"
proof (cases req)
  case (Inl e)
  then show ?thesis
    using assms by (simp add: POST_def POST_catch_def)
next
  case (Inr v)
  show ?thesis
  proof (cases "destructure v :: 'e error + json option \<times> json option")
    case (Inl e)
    then show ?thesis
      using assms Inr by (simp add: POST_def POST_catch_def)
  next
    case d: (Inr p)
    obtain a b where p: "p = (a, b)"
      by (cases p)
    have dab: "(destructure v :: 'e error + json option \<times> json option) = Inr (a, b)"
      using d p by simp
    have ab: "a = own_property v (js ''text'')" "b = own_property v (js ''targetLanguages'')"
      using destructure_Inr [OF dab] by simp_all
    show ?thesis
      using assms Inr d p ab
      by (auto simp: POST_def POST_catch_def
          dest: TranslateText_notin_translateText
          split: option.splits if_splits sum.splits bool.splits prod.splits)
  qed
qed



text \<open>
  C2, as amended. A body other than \<open>null\<close> whose text is missing, \<open>null\<close>, empty or
  a string longer than 140 is answered with status 400 and the message "Text is
  required and must be up to 140 characters.", whatever \<open>targetLanguages\<close> holds;
  nothing is called and the world is untouched, and the answer is never the
  language-count message.
\<close>

theorem POST_invalid_text:
  assumes "v \<noteq> JNull"
    and "own_property v (js ''text'') = None \<or> own_property v (js ''text'') = Some JNull
      \<or> own_property v (js ''text'') = Some (JStr [])
      \<or> (\<exists>t. own_property v (js ''text'') = Some (JStr t) \<and> length t > 140)"
  shows "POST rt (Inr v) w = (InvalidText, [], w)
    \<and> status InvalidText = 400
    \<and> body InvalidText
        = JObj [(js ''error'', JStr (js ''Text is required and must be up to 140 characters.''))]
    \<and> fst (POST rt (Inr v) w) \<noteq> InvalidLanguageCount"
proof -
  have "POST rt (Inr v) w = (InvalidText, [], w)"
    using assms(2)
    by (auto simp: POST_def destructure_not_null [OF assms(1)] length_exceeds_140_JStr)
  then show ?thesis
    using InvalidText_neq_InvalidLanguageCount by (simp add: body_InvalidText)
qed

theorem POST_invalid_text_witness:
  "POST (scripted_runtime (Inr (js ''{}'')) [(js ''{}'', JObj [])])
       (Inr (JObj [(js ''text'', JStr []),
                   (js ''targetLanguages'',
                    JArr [JStr (js ''es''), JStr (js ''fr''), JStr (js ''de'')])]))
       []
     = (InvalidText, [], [])"
proof -
  let ?v = "JObj [(js ''text'', JStr []),
                  (js ''targetLanguages'',
                   JArr [JStr (js ''es''), JStr (js ''fr''), JStr (js ''de'')])]"
  have "own_property ?v (js ''text'') = Some (JStr [])"
    by (simp add: js_def)
  then show ?thesis
    using POST_invalid_text
      [of ?v "scripted_runtime (Inr (js ''{}'')) [(js ''{}'', JObj [])]" "[]"]
    by simp
qed

text \<open>
  The claim as first stated fails: the body \<open>null\<close> has no text, the destructuring
  throws inside the \<open>try\<close>, and the answer is 500 with the general message.
\<close>

theorem POST_null_body_counterexample:
  "own_property JNull (js ''text'') = None
   \<and> POST (scripted_runtime (Inr (js ''{}'')) [(js ''{}'', JObj [])]) (Inr JNull) []
      = (TranslationError, [ConsoleError (js ''API Translation Error:'') TypeError], [])
   \<and> status TranslationError = 500"
  by (simp add: POST_def POST_catch_def)

text \<open>
  C3, as amended. A body whose text passes the first rule (a string of 1 to 140 code
  units) and whose \<open>targetLanguages\<close> is missing, \<open>null\<close> or an array of a length
  other than 3 is answered with status 400 and the message "Please select exactly 3
  target languages."; nothing is called.
\<close>

theorem POST_invalid_language_count:
  assumes "own_property v (js ''text'') = Some (JStr t)" "1 \<le> length t" "length t \<le> 140"
    and "own_property v (js ''targetLanguages'') = None
      \<or> own_property v (js ''targetLanguages'') = Some JNull
      \<or> (\<exists>ys. own_property v (js ''targetLanguages'') = Some (JArr ys) \<and> length ys \<noteq> 3)"
  shows "POST rt (Inr v) w = (InvalidLanguageCount, [], w)
    \<and> status InvalidLanguageCount = 400
    \<and> body InvalidLanguageCount
        = JObj [(js ''error'', JStr (js ''Please select exactly 3 target languages.''))]"
proof -
  have "t \<noteq> []"
    using assms(2) by auto
  then have "POST rt (Inr v) w = (InvalidLanguageCount, [], w)"
    using assms(1,3,4)
    by (auto simp: POST_def destructure_property [OF assms(1)] length_exceeds_140_JStr)
  then show ?thesis
    by (simp add: body_InvalidLanguageCount)
qed

theorem POST_invalid_language_count_witness:
  "POST (scripted_runtime (Inr (js ''{}'')) [(js ''{}'', JObj [])])
       (Inr (JObj [(js ''text'', JStr (js ''Hello'')),
                   (js ''targetLanguages'', JArr [JStr (js ''es''), JStr (js ''fr'')])]))
       []
     = (InvalidLanguageCount, [], [])"
proof -
  let ?v = "JObj [(js ''text'', JStr (js ''Hello'')),
                  (js ''targetLanguages'', JArr [JStr (js ''es''), JStr (js ''fr'')])]"
  have p1: "own_property ?v (js ''text'') = Some (JStr (js ''Hello''))"
    by (simp add: js_def)
  have p2: "own_property ?v (js ''targetLanguages'')
      = Some (JArr [JStr (js ''es''), JStr (js ''fr'')])"
    by (simp add: js_def)
  show ?thesis
    using POST_invalid_language_count
      [of ?v "js ''Hello''" "scripted_runtime (Inr (js ''{}'')) [(js ''{}'', JObj [])]" "[]",
       OF p1] p2
    by simp
qed

text \<open>
  The claim as first stated fails: with two codes and an empty text, the text rule
  answers first, with the other message.
\<close>

theorem POST_language_count_counterexample:
  "length [JStr (js ''es''), JStr (js ''fr'')] \<noteq> 3
   \<and> POST (scripted_runtime (Inr (js ''{}'')) [(js ''{}'', JObj [])])
        (Inr (JObj [(js ''text'', JStr []),
                    (js ''targetLanguages'', JArr [JStr (js ''es''), JStr (js ''fr'')])]))
        []
      = (InvalidText, [], [])
   \<and> InvalidText \<noteq> InvalidLanguageCount"
  using InvalidText_neq_InvalidLanguageCount by (simp add: POST_def js_def)

text \<open>
  C5. Whenever the handler has called \<open>translateText\<close> and that call fails, with
  whatever error, the answer is status 500 with exactly the body
  \<open>{ error: "An error occurred during translation." }\<close>: a constant, in which nothing
  of the cause appears.
\<close>

theorem POST_client_failure:
  assumes "TranslateText x y \<in> set (fst (snd (POST rt req w)))"
    and "fst (translateText rt x y w) = Inl err"
  shows "fst (POST rt req w) = TranslationError
    \<and> status (fst (POST rt req w)) = 500
    \<and> body (fst (POST rt req w))
        = JObj [(js ''error'', JStr (js ''An error occurred during translation.''))]"
proof -
  obtain v where v: "req = Inr v" "own_property v (js ''text'') = Some x" "truthy x"
      "length_exceeds_140 rt x = Inr False"
      "own_property v (js ''targetLanguages'') = Some y" "truthy y"
      "js_length y = Some (JNum (Finite 3))"
    using POST_forwarded [OF assms(1)] by blast
  obtain evs w' where "translateText rt x y w = (Inl err, evs, w')"
    using assms(2) by (cases "translateText rt x y w") auto
  then have "fst (POST rt req w) = TranslationError"
    using POST_passed [OF v(2-7), of w] v(1) by (simp add: POST_catch_def)
  then show ?thesis
    by (simp add: body_TranslationError)
qed

theorem POST_client_failure_witness:
  "fst (POST (scripted_runtime (Inl (js ''fetch failed'')) [])
          (Inr (JObj [(js ''text'', JStr (js ''Hello'')),
                      (js ''targetLanguages'',
                       JArr [JStr (js ''es''), JStr (js ''fr''), JStr (js ''de'')])]))
          [])
     = TranslationError"
proof -
  let ?rt = "scripted_runtime (Inl (js ''fetch failed'')) []"
  let ?x = "JStr (js ''Hello'')"
  let ?y = "JArr [JStr (js ''es''), JStr (js ''fr''), JStr (js ''de'')]"
  let ?req = "Inr (JObj [(js ''text'', ?x), (js ''targetLanguages'', ?y)])"
  have "TranslateText ?x ?y \<in> set (fst (snd (POST ?rt ?req [])))"
    by (simp add: POST_def POST_catch_def length_exceeds_140_def translateText_def
        translateText_try_def scripted_runtime_def js_def)
  moreover have "fst (translateText ?rt ?x ?y []) = Inl (Error (js ''Translation failed''))"
    by (simp add: translateText_def translateText_try_def scripted_runtime_def)
  ultimately show ?thesis
    using POST_client_failure [of ?x ?y ?rt ?req "[]"]
    by simp
qed

text \<open>
  C6, as amended. Every call of \<open>translateText\<close> by the handler carries the two
  values of the body unchanged; both are truthy and the second has \<open>length\<close> 3.
  When the text is a string it has 1 to 140 code units, and when
  \<open>targetLanguages\<close> is an array it has exactly 3 entries. Neither the types of the
  two values nor the distinctness of the codes is checked.
\<close>

theorem POST_forwards_validated:
  assumes "TranslateText x y \<in> set (fst (snd (POST rt req w)))"
  shows "(\<exists>v. req = Inr v \<and> own_property v (js ''text'') = Some x
            \<and> own_property v (js ''targetLanguages'') = Some y)
    \<and> truthy x \<and> truthy y \<and> js_length y = Some (JNum (Finite 3))
    \<and> (\<forall>t. x = JStr t \<longrightarrow> 1 \<le> length t \<and> length t \<le> 140)
    \<and> (\<forall>ys. y = JArr ys \<longrightarrow> length ys = 3)"
proof -
  obtain v where v: "req = Inr v" "own_property v (js ''text'') = Some x" "truthy x"
      "length_exceeds_140 rt x = Inr False"
      "own_property v (js ''targetLanguages'') = Some y" "truthy y"
      "js_length y = Some (JNum (Finite 3))"
    using POST_forwarded [OF assms] by blast
  have "1 \<le> length t \<and> length t \<le> 140" if "x = JStr t" for t
    using v(3,4) that by (cases t) (simp_all add: length_exceeds_140_JStr)
  moreover have "length ys = 3" if "y = JArr ys" for ys
    using v(7) that by simp
  ultimately show ?thesis
    using v by blast
qed

theorem POST_forwards_validated_witness:
  \<open>TranslateText (JStr (js ''hi'')) (JArr [JStr (js ''es''), JStr (js ''es''), JStr (js ''es'')])
     \<in> set (fst (snd (POST (scripted_runtime (Inr (js ''{"es":"Hola"}''))
                            [(js ''{"es":"Hola"}'', JObj [(js ''es'', JStr (js ''Hola''))])])
                      (Inr (JObj [(js ''text'', JStr (js ''hi'')),
                                  (js ''targetLanguages'',
                                   JArr [JStr (js ''es''), JStr (js ''es''), JStr (js ''es'')])]))
                      [])))
   \<and> 1 \<le> length (js ''hi'') \<and> length (js ''hi'') \<le> 140
   \<and> length [JStr (js ''es''), JStr (js ''es''), JStr (js ''es'')] = 3\<close>
proof -
  let ?rt = \<open>scripted_runtime (Inr (js ''{"es":"Hola"}''))
              [(js ''{"es":"Hola"}'', JObj [(js ''es'', JStr (js ''Hola''))])]\<close>
  let ?x = "JStr (js ''hi'')"
  let ?y = "JArr [JStr (js ''es''), JStr (js ''es''), JStr (js ''es'')]"
  let ?req = "Inr (JObj [(js ''text'', ?x), (js ''targetLanguages'', ?y)])"
  have h: "TranslateText ?x ?y \<in> set (fst (snd (POST ?rt ?req [])))"
    by (simp add: POST_def POST_catch_def length_exceeds_140_def translateText_def
        translateText_try_def scripted_runtime_def js_def)
  then show ?thesis
    using POST_forwards_validated [OF h]
    by blast
qed

text \<open>
  The claim as first stated fails twice: the codes \<open>es, es, es\<close> pass both rules
  and reach \<open>translateText\<close>; and a text of 141 code units wrapped in an array (whose
  \<open>length\<close> is 1) passes the text rule, so the model receives a prompt with it.
\<close>

theorem POST_forwards_unchecked_counterexample:
  \<open>TranslateText (JStr (js ''hi'')) (JArr [JStr (js ''es''), JStr (js ''es''), JStr (js ''es'')])
     \<in> set (fst (snd (POST (scripted_runtime (Inr (js ''{"es":"Hola"}''))
                            [(js ''{"es":"Hola"}'', JObj [(js ''es'', JStr (js ''Hola''))])])
                      (Inr (JObj [(js ''text'', JStr (js ''hi'')),
                                  (js ''targetLanguages'',
                                   JArr [JStr (js ''es''), JStr (js ''es''), JStr (js ''es'')])]))
                      [])))
   \<and> \<not> distinct [js ''es'', js ''es'', js ''es'']
   \<and> snd (snd (POST (scripted_runtime (Inr (js ''{"es":"Hola"}''))
                     [(js ''{"es":"Hola"}'', JObj [(js ''es'', JStr (js ''Hola''))])])
                (Inr (JObj [(js ''text'', JArr [JStr (replicate 141 0x61)]),
                            (js ''targetLanguages'',
                             JArr [JStr (js ''es''), JStr (js ''fr''), JStr (js ''de'')])]))
                []))
     = [promptTemplate (replicate 141 0x61) [js ''es'', js ''fr'', js ''de'']]
   \<and> length (replicate 141 (0x61 :: 16 word)) = 141\<close>
  by (simp add: POST_def POST_catch_def length_exceeds_140_def translateText_def
      translateText_try_def scripted_runtime_def js_def)

text \<open>
  C10. When \<open>request.json()\<close> throws (the body is not JSON), the answer is status 500
  with the message "An error occurred during translation.", not a 400; the only
  effect is the server's log line, so neither \<open>translateText\<close> nor the model is called.
\<close>

theorem POST_unparseable_body:
  "POST rt (Inl e) w
     = (TranslationError, [ConsoleError (js ''API Translation Error:'') (Thrown e)], w)
   \<and> status (fst (POST rt (Inl e) w)) = 500
   \<and> body (fst (POST rt (Inl e) w))
       = JObj [(js ''error'', JStr (js ''An error occurred during translation.''))]
   \<and> filter is_TranslateText (fst (snd (POST rt (Inl e) w))) = []
   \<and> filter is_SendMessage (fst (snd (POST rt (Inl e) w))) = []"
  by (simp add: POST_def POST_catch_def body_TranslationError)

theorem POST_unparseable_body_witness:
  "POST (scripted_runtime (Inr (js ''{}'')) [(js ''{}'', JObj [])])
       (Inl (js ''Unexpected end of JSON input'')) []
     = (TranslationError,
        [ConsoleError (js ''API Translation Error:'') (Thrown (js ''Unexpected end of JSON input''))],
        [])"
  using POST_unparseable_body
    [of "scripted_runtime (Inr (js ''{}'')) [(js ''{}'', JObj [])]"
        "js ''Unexpected end of JSON input''" "[]"]
  by simp

section \<open>Whitespace: the form and the endpoint\<close>

lemma trim_all_WhiteSpace:
  assumes "list_all is_WhiteSpace t"
  shows "trim t = []"
proof -
  have "dropWhile is_WhiteSpace t = []"
    using assms by (simp add: dropWhile_eq_Nil_conv list_all_iff)
  then show ?thesis
    by (simp only: trim_def rev.simps dropWhile.simps)
qed

text \<open>
  C9, as amended. For a text of 1 to 140 code units, all of them whitespace: the
  handler never answers with the text message; when \<open>targetLanguages\<close> is an array
  of exactly 3 entries it calls \<open>translateText\<close> once with the text as it came,
  untrimmed; and the form's \<open>handleSubmit\<close> returns without submitting such a text.
\<close>

theorem POST_whitespace_text:
  assumes "own_property v (js ''text'') = Some (JStr t)" "1 \<le> length t" "length t \<le> 140"
    and "list_all is_WhiteSpace t"
  shows "fst (POST rt (Inr v) w) \<noteq> InvalidText
    \<and> (\<forall>ys. own_property v (js ''targetLanguages'') = Some (JArr ys) \<and> length ys = 3
          \<longrightarrow> filter is_TranslateText (fst (snd (POST rt (Inr v) w)))
                = [TranslateText (JStr t) (JArr ys)])
    \<and> FullscreenTextInput_handleSubmit t = None"
proof -
  have ne: "t \<noteq> []"
    using assms(2) by auto
  have "fst (POST rt (Inr v) w) \<noteq> InvalidText"
    using assms(1,3) ne
    by (auto simp: POST_def POST_catch_def destructure_property [OF assms(1)]
        length_exceeds_140_JStr not_InvalidText
        split: option.splits sum.splits prod.splits)
  moreover have "filter is_TranslateText (fst (snd (POST rt (Inr v) w)))
      = [TranslateText (JStr t) (JArr ys)]"
    if "own_property v (js ''targetLanguages'') = Some (JArr ys)" "length ys = 3" for ys
  proof -
    obtain res evs w' where tr: "translateText rt (JStr t) (JArr ys) w = (res, evs, w')"
      by (cases "translateText rt (JStr t) (JArr ys) w")
    then have "filter is_TranslateText evs = []"
      by (auto simp: translateText_def split: sum.splits prod.splits)
    then show ?thesis
      using POST_passed [OF assms(1) _ _ that(1), of rt w] assms(3) ne that(2) tr
      by (cases res) (simp_all add: length_exceeds_140_JStr POST_catch_def)
  qed
  moreover have "FullscreenTextInput_handleSubmit t = None"
    using assms(4) by (simp add: FullscreenTextInput_handleSubmit_def trim_all_WhiteSpace)
  ultimately show ?thesis
    by blast
qed

theorem POST_whitespace_text_witness:
  "fst (POST (scripted_runtime (Inr (js ''{}'')) [(js ''{}'', JObj [])])
          (Inr (JObj [(js ''text'', JStr (js ''   '')),
                      (js ''targetLanguages'',
                       JArr [JStr (js ''es''), JStr (js ''fr''), JStr (js ''de'')])]))
          [])
     \<noteq> InvalidText
   \<and> filter is_TranslateText
        (fst (snd (POST (scripted_runtime (Inr (js ''{}'')) [(js ''{}'', JObj [])])
          (Inr (JObj [(js ''text'', JStr (js ''   '')),
                      (js ''targetLanguages'',
                       JArr [JStr (js ''es''), JStr (js ''fr''), JStr (js ''de'')])]))
          [])))
     = [TranslateText (JStr (js ''   ''))
          (JArr [JStr (js ''es''), JStr (js ''fr''), JStr (js ''de'')])]
   \<and> FullscreenTextInput_handleSubmit (js ''   '') = None"
proof -
  let ?v = "JObj [(js ''text'', JStr (js ''   '')),
                  (js ''targetLanguages'',
                   JArr [JStr (js ''es''), JStr (js ''fr''), JStr (js ''de'')])]"
  have ws: "list_all is_WhiteSpace (js ''   '')"
    by (simp add: js_def is_WhiteSpace_def)
  have p1: "own_property ?v (js ''text'') = Some (JStr (js ''   ''))"
    by (simp add: js_def)
  have p2: "own_property ?v (js ''targetLanguages'')
      = Some (JArr [JStr (js ''es''), JStr (js ''fr''), JStr (js ''de'')])"
    by (simp add: js_def)
  show ?thesis
    using POST_whitespace_text
      [of ?v "js ''   ''" "scripted_runtime (Inr (js ''{}'')) [(js ''{}'', JObj [])]" "[]",
       OF p1 _ _ ws] p2
    by simp
qed

text \<open>
  The claim as first stated fails: a text of one space with two codes passes the text
  rule and is stopped by the language rule, so it is not forwarded.
\<close>

theorem POST_whitespace_text_counterexample:
  "list_all is_WhiteSpace (js '' '') \<and> length (js '' '') = 1
   \<and> POST (scripted_runtime (Inr (js ''{}'')) [(js ''{}'', JObj [])])
        (Inr (JObj [(js ''text'', JStr (js '' '')),
                    (js ''targetLanguages'', JArr [JStr (js ''es''), JStr (js ''fr'')])]))
        []
      = (InvalidLanguageCount, [], [])"
  by (simp add: POST_def length_exceeds_140_def js_def is_WhiteSpace_def)

section \<open>The language picker\<close>

lemma toggleLanguage_distinct:
  "distinct prev \<Longrightarrow> distinct (toggleLanguage c prev)"
  by (simp add: toggleLanguage_def)

lemma toggleLanguage_length:
  "\<not> checkbox_disabled c prev \<Longrightarrow> length prev \<le> 3 \<Longrightarrow> length (toggleLanguage c prev) \<le> 3"
proof (cases "c \<in> set prev")
  case True
  assume "length prev \<le> 3"
  then have "length (filter (\<lambda>x. x \<noteq> c) prev) \<le> 3"
    by (rule le_trans [OF length_filter_le])
  then show ?thesis
    using True by (simp add: toggleLanguage_def)
next
  case False
  assume "\<not> checkbox_disabled c prev"
  with False show ?thesis
    by (simp add: toggleLanguage_def checkbox_disabled_def)
qed

lemma user_step_capped: "capped m \<Longrightarrow> capped (user_step m a)"
  by (cases a)
    (auto simp: capped_def useEffect_def onClose_def handleSubmit_def
      toggleLanguage_distinct toggleLanguage_length)

lemma foldl_user_step_capped: "capped m \<Longrightarrow> capped (foldl user_step m acts)"
  by (induction acts arbitrary: m) (simp_all add: user_step_capped)

text \<open>
  C7. Starting from the closed modal with nothing selected, after any sequence of
  user actions (opening, clicking checkboxes, Cancel, Submit) at most three codes
  are selected, none twice; and in any state with three codes selected, a click on
  the checkbox of a fourth changes nothing.
\<close>

theorem selection_capped:
  "length (selectedLanguages (run acts)) \<le> 3
   \<and> distinct (selectedLanguages (run acts))
   \<and> (length (selectedLanguages m) = 3 \<and> c \<notin> set (selectedLanguages m)
        \<longrightarrow> user_step m (ClickCheckbox c) = m)"
proof -
  have "capped initial"
    by (simp add: capped_def initial_def)
  then have "capped (run acts)"
    unfolding run_def by (rule foldl_user_step_capped)
  then show ?thesis
    by (simp add: capped_def checkbox_disabled_def)
qed

theorem selection_capped_witness:
  "selectedLanguages
     (run [Open, ClickCheckbox (js ''en''), ClickCheckbox (js ''es''), ClickCheckbox (js ''zh'')])
     = [js ''en'', js ''es'', js ''zh'']
   \<and> user_step
       (run [Open, ClickCheckbox (js ''en''), ClickCheckbox (js ''es''), ClickCheckbox (js ''zh'')])
       (ClickCheckbox (js ''hi''))
     = run [Open, ClickCheckbox (js ''en''), ClickCheckbox (js ''es''), ClickCheckbox (js ''zh'')]"
proof -
  let ?m = "run [Open, ClickCheckbox (js ''en''), ClickCheckbox (js ''es''), ClickCheckbox (js ''zh'')]"
  have sel: "selectedLanguages ?m = [js ''en'', js ''es'', js ''zh'']"
    by (simp add: run_def initial_def useEffect_def COMMON_LANGUAGES_def checkbox_disabled_def
        toggleLanguage_def js_def)
  have "js ''hi'' \<notin> set [js ''en'', js ''es'', js ''zh'']"
    by (simp add: js_def)
  then show ?thesis
    using selection_capped [of "[]" ?m "js ''hi''"] sel by simp
qed

end
